theory Spec2Isabelle
  imports Main
begin

section \<open>Moment sensitivity plots: the data model\<close>

text \<open>
  The development embeds \<^verbatim>\<open>moment_sensitivity_plot\<close> of
  \<^verbatim>\<open>estimagic/visualization/sensitivity_plot.py\<close>.

  A cell of a table is a number or a string. Numbers are those of an integer column of
  the table library, 64-bit signed integers, given by their value; the operation on them,
  the absolute value, wraps around as it does there. Floating-point columns are left out.
  Labels of rows and columns are cells too, as in the table library, where the default row
  labels are \<open>0, 1, 2, ...\<close> and a column of names may become the column labels.
\<close>

datatype cell = Num int | Str string

text \<open>
  A table (\<^verbatim>\<open>pd.DataFrame\<close>): the column labels, the row labels, and the
  cells stored column by column, \<open>data df ! j ! i\<close> being the cell of column \<open>j\<close>
  in row \<open>i\<close>. Both axes are unnamed, as for a table built from a dict or from records.
\<close>

record dataframe =
  columns :: "cell list"
  index :: "cell list"
  data :: "cell list list"

text \<open>The shape invariant that every table of the library satisfies.\<close>

definition wf_df :: "dataframe \<Rightarrow> bool" where
  "wf_df df \<longleftrightarrow>
     length (data df) = length (columns df) \<and>
     list_all (\<lambda>col. length col = length (index df)) (data df)"

text \<open>The exceptions that the function can raise, each a value.\<close>

datatype py_error = IndexError | KeyError | TypeError | ValueError | AttributeError

section \<open>Operations of the language and of the table library\<close>

text \<open>
  The slice \<^verbatim>\<open>xs[-k:]\<close>: it starts \<open>k\<close> places before the end, at the
  beginning when the sequence is shorter than \<open>k\<close>, and, since \<^verbatim>\<open>-0\<close> is
  \<^verbatim>\<open>0\<close>, at the beginning too when \<open>k = 0\<close>.
\<close>

definition neg_start :: "nat \<Rightarrow> 'a list \<Rightarrow> nat" where
  "neg_start k xs = (if k = 0 then 0 else length xs - k)"

definition slice_last :: "nat \<Rightarrow> 'a list \<Rightarrow> 'a list" where
  "slice_last k xs = drop (neg_start k xs) xs"

text \<open>
  \<^verbatim>\<open>df[key].to_list()\<close>. No column with that label is a \<^verbatim>\<open>KeyError\<close>.
  With several columns of that label the selection is a table, not a column, and a table
  has no \<^verbatim>\<open>to_list\<close>.
\<close>

definition getitem_to_list :: "cell \<Rightarrow> dataframe \<Rightarrow> py_error + cell list" where
  "getitem_to_list key df =
     (case map snd (filter (\<lambda>p. fst p = key) (zip (columns df) (data df))) of
        [] \<Rightarrow> Inl KeyError
      | [col] \<Rightarrow> Inr col
      | _ \<Rightarrow> Inl AttributeError)"

text \<open>
  A result of 64-bit signed arithmetic: the value taken modulo \<open>2 ^ 64\<close> into the
  range from \<open>- 2 ^ 63\<close> up to, not including, \<open>2 ^ 63\<close>.
\<close>

definition wrap_int64 :: "int \<Rightarrow> int" where
  "wrap_int64 x = (x + 2 ^ 63) mod 2 ^ 64 - 2 ^ 63"

text \<open>
  \<^verbatim>\<open>abs\<close> of a cell: of a number the absolute value, wrapped, so that the
  least number, \<open>- 2 ^ 63\<close>, stays as it is; a string has no absolute value. A column,
  and a whole table, take it cell by cell and fail at the first cell that fails.
\<close>

fun abs_cell :: "cell \<Rightarrow> py_error + cell" where
  "abs_cell (Num x) = Inr (Num (wrap_int64 \<bar>x\<bar>))"
| "abs_cell (Str s) = Inl TypeError"

fun abs_col :: "cell list \<Rightarrow> py_error + cell list" where
  "abs_col [] = Inr []"
| "abs_col (c # cs) =
     (case abs_cell c of
        Inl e \<Rightarrow> Inl e
      | Inr c' \<Rightarrow> (case abs_col cs of Inl e \<Rightarrow> Inl e | Inr cs' \<Rightarrow> Inr (c' # cs')))"

fun abs_cols :: "cell list list \<Rightarrow> py_error + cell list list" where
  "abs_cols [] = Inr []"
| "abs_cols (c # cs) =
     (case abs_col c of
        Inl e \<Rightarrow> Inl e
      | Inr c' \<Rightarrow> (case abs_cols cs of Inl e \<Rightarrow> Inl e | Inr cs' \<Rightarrow> Inr (c' # cs')))"

text \<open>\<^verbatim>\<open>df.iloc[:, -k:]\<close>: the last \<open>k\<close> columns, all rows.\<close>

definition iloc_last :: "nat \<Rightarrow> dataframe \<Rightarrow> dataframe" where
  "iloc_last k df =
     \<lparr>columns = slice_last k (columns df), index = index df, data = slice_last k (data df)\<rparr>"

text \<open>\<^verbatim>\<open>df.abs()\<close>: a new table with the same labels.\<close>

definition frame_abs :: "dataframe \<Rightarrow> py_error + dataframe" where
  "frame_abs df =
     (case abs_cols (data df) of Inl e \<Rightarrow> Inl e | Inr d \<Rightarrow> Inr (df\<lparr>data := d\<rparr>))"

text \<open>
  \<^verbatim>\<open>df.iloc[:, -k:] = v\<close>: the cells of \<open>v\<close> replace, by position, the last
  \<open>k\<close> columns of \<open>df\<close>; the labels of \<open>df\<close> stay.
\<close>

definition iloc_last_set :: "nat \<Rightarrow> dataframe \<Rightarrow> dataframe \<Rightarrow> dataframe" where
  "iloc_last_set k df v = df\<lparr>data := take (neg_start k (data df)) (data df) @ data v\<rparr>"

text \<open>\<^verbatim>\<open>df.T\<close>: rows become columns.\<close>

definition T :: "dataframe \<Rightarrow> dataframe" where
  "T df =
     \<lparr>columns = index df, index = columns df,
      data = map (\<lambda>i. map (\<lambda>col. col ! i) (data df)) [0..<length (index df)]\<rparr>"

text \<open>\<^verbatim>\<open>df[-k:]\<close>: a slice in the brackets of a table selects rows.\<close>

definition getitem_last_rows :: "nat \<Rightarrow> dataframe \<Rightarrow> dataframe" where
  "getitem_last_rows k df =
     \<lparr>columns = columns df, index = slice_last k (index df),
      data = map (slice_last k) (data df)\<rparr>"

text \<open>
  \<^verbatim>\<open>df.columns = labels\<close>: the number of new labels must be the number of
  columns.
\<close>

definition set_columns :: "cell list \<Rightarrow> dataframe \<Rightarrow> py_error + dataframe" where
  "set_columns labels df =
     (if length labels = length (data df) then Inr (df\<lparr>columns := labels\<rparr>)
      else Inl ValueError)"

text \<open>
  \<^verbatim>\<open>df.reset_index()\<close>: the row labels become the first column, labelled
  \<^verbatim>\<open>index\<close>, or \<^verbatim>\<open>level_0\<close> when there is a column \<^verbatim>\<open>index\<close>
  already; a label that exists cannot be inserted. The rows are numbered anew.
\<close>

definition reset_index :: "dataframe \<Rightarrow> py_error + dataframe" where
  "reset_index df =
     (let name = (if Str ''index'' \<in> set (columns df) then Str ''level_0'' else Str ''index'')
      in if name \<in> set (columns df) then Inl ValueError
         else Inr \<lparr>columns = name # columns df,
                   index = map (\<lambda>i. Num (int i)) [0..<length (index df)],
                   data = index df # data df\<rparr>)"

text \<open>\<^verbatim>\<open>str(n)\<close> of a natural number: its decimal digits.\<close>

definition digit_char :: "nat \<Rightarrow> char" where
  "digit_char d = char_of (48 + d)"

fun str_nat :: "nat \<Rightarrow> string" where
  "str_nat n = (if n < 10 then [digit_char n] else str_nat (n div 10) @ [digit_char (n mod 10)])"

text \<open>The equation of \<open>str_nat\<close> is unfolded on request only.\<close>

declare str_nat.simps [simp del]

section \<open>The plotting library\<close>

text \<open>
  The plotting library is an external collaborator. A figure is what the function hands
  to it: the table, the variables of the grid, the title of each subplot and the title of
  the figure. A grid has one subplot for each pair of a \<open>y\<close> and an \<open>x\<close> variable, row
  by row. The library is taken to draw the table it is given; what it refuses, such as a
  grid in which a variable occurs twice, is not modelled.
\<close>

record figure =
  fig_data :: dataframe
  x_vars :: "cell list"
  y_vars :: "cell list"
  ax_titles :: "((cell \<times> cell) \<times> string option) list"
  suptitle :: string

text \<open>\<^verbatim>\<open>sns.PairGrid(data, x_vars, y_vars)\<close>: no subplot has a title yet.\<close>

definition PairGrid :: "dataframe \<Rightarrow> cell list \<Rightarrow> cell list \<Rightarrow> figure" where
  "PairGrid df xs ys =
     \<lparr>fig_data = df, x_vars = xs, y_vars = ys,
      ax_titles = map (\<lambda>ax. (ax, None)) (List.product ys xs),
      suptitle = []\<rparr>"

text \<open>
  \<^verbatim>\<open>for ax, title in zip(g.axes.flat, titles): ax.set(title=title)\<close>:
  \<^verbatim>\<open>zip\<close> stops at the end of the shorter sequence, so the subplots beyond the
  last title keep what they had.
\<close>

fun set_titles :: "('a \<times> string option) list \<Rightarrow> string list \<Rightarrow> ('a \<times> string option) list" where
  "set_titles [] ts = []"
| "set_titles (a # as) [] = a # as"
| "set_titles ((ax, old) # as) (t # ts) = (ax, Some t) # set_titles as ts"

definition titles :: "string list" where
  "titles = [''intersection'', ''beta1'', ''beta2'']"

section \<open>State: the objects and the files written\<close>

text \<open>
  Tables are objects: the caller passes references, and an assignment into a table or to
  its labels changes the object that every holder of the reference sees. The heap is the
  list of all table objects, a reference is a position in it, and a new object goes to the
  end. A reference that the program holds is to an object: \<open>r < length (heap s)\<close>.
  \<open>saved\<close> is the sequence of files written, each with the figure it holds; a
  later file of the same name replaces the earlier one.
\<close>

type_synonym ref = nat

record state =
  heap :: "dataframe list"
  saved :: "(string \<times> figure) list"

definition alloc :: "dataframe \<Rightarrow> state \<Rightarrow> ref \<times> state" where
  "alloc df s = (length (heap s), s\<lparr>heap := heap s @ [df]\<rparr>)"

definition deref :: "state \<Rightarrow> ref \<Rightarrow> dataframe" where
  "deref s r = heap s ! r"

definition assign :: "ref \<Rightarrow> dataframe \<Rightarrow> state \<Rightarrow> state" where
  "assign r df s = s\<lparr>heap := (heap s)[r := df]\<rparr>"

definition savefig :: "string \<Rightarrow> figure \<Rightarrow> state \<Rightarrow> state" where
  "savefig fname g s = s\<lparr>saved := saved s @ [(fname, g)]\<rparr>"

section \<open>The function\<close>

text \<open>
  The argument is a table or a list of tables
  (\<^verbatim>\<open>sensitivity (pd.DataFrame or list of pd.DataFrame)\<close>). A caller may
  also pass another sequence of tables, a tuple, which is not a list.
\<close>

datatype arg = Table ref | ListOf "ref list" | TupleOf "ref list"

text \<open>An element of the list that the function works on: a table, or a tuple.\<close>

datatype item = Frame ref | Tuple "ref list"

text \<open>
  Line 27, \<^verbatim>\<open>df.iloc[:, -number_sens:] = df.iloc[:, -number_sens:].abs()\<close>, on
  the object that \<open>df\<close> refers to. The right-hand side is evaluated first, so a failure
  there leaves the object as it was.
\<close>

definition abs_last_columns :: "nat \<Rightarrow> ref \<Rightarrow> state \<Rightarrow> (py_error + unit) \<times> state" where
  "abs_last_columns k df s =
     (case frame_abs (iloc_last k (deref s df)) of
        Inl e \<Rightarrow> (Inl e, s)
      | Inr v \<Rightarrow> (Inr (), assign df (iloc_last_set k (deref s df) v) s))"

text \<open>
  The body of the loop, for the table at position \<open>i\<close>: lines 25 to 76.
  \<open>number_sens\<close> is the number of tables, \<open>df_columns\<close> the names read from the first
  table and \<open>number_params\<close> their number. An exception leaves the state as it is when
  it is raised. The calls that only style the drawing (\<^verbatim>\<open>plt.clf\<close>,
  \<^verbatim>\<open>g.map\<close>, \<^verbatim>\<open>g.set\<close>, \<^verbatim>\<open>set_xlim\<close>, the grids,
  \<^verbatim>\<open>despine\<close>, \<^verbatim>\<open>subplots_adjust\<close>) leave the recorded figure as
  it is.
\<close>

definition loop_body ::
  "ref list \<Rightarrow> nat \<Rightarrow> cell list \<Rightarrow> nat \<Rightarrow> nat \<Rightarrow> state \<Rightarrow> (py_error + unit) \<times> state" where
  "loop_body sensitivity number_sens df_columns number_params i s =
     (let (df, s1) = alloc (deref s (sensitivity ! i)) s in
      case abs_last_columns number_sens df s1 of
        (Inl e, s2) \<Rightarrow> (Inl e, s2)
      | (Inr u, s2) \<Rightarrow>
     (let (df', s3) = alloc (getitem_last_rows number_sens (T (deref s2 df))) s2 in
      case set_columns df_columns (deref s3 df') of
        Inl e \<Rightarrow> (Inl e, s3)
      | Inr d \<Rightarrow>
     (let s4 = assign df' d s3 in
      case reset_index (deref s4 df') of
        Inl e \<Rightarrow> (Inl e, s4)
      | Inr d' \<Rightarrow>
     (let s5 = assign df' d' s4;
          g = PairGrid (deref s5 df') (slice_last number_params (columns (deref s5 df')))
                [Str ''index''];
          g1 = g\<lparr>ax_titles := set_titles (ax_titles g) titles\<rparr>;
          g2 = g1\<lparr>suptitle := ''Sensitivity '' @ str_nat (i + 1)\<rparr>
      in (Inr (), savefig (''sensitivity_plot'' @ str_nat (i + 1) @ ''.png'') g2 s5)))))"

text \<open>\<^verbatim>\<open>for i in range(number_sens)\<close>, over the list of the positions.\<close>

fun for_loop ::
  "ref list \<Rightarrow> nat \<Rightarrow> cell list \<Rightarrow> nat \<Rightarrow> nat list \<Rightarrow> state \<Rightarrow> (py_error + unit) \<times> state" where
  "for_loop sensitivity number_sens df_columns number_params [] s = (Inr (), s)"
| "for_loop sensitivity number_sens df_columns number_params (i # is) s =
     (case loop_body sensitivity number_sens df_columns number_params i s of
        (Inl e, s') \<Rightarrow> (Inl e, s')
      | (Inr u, s') \<Rightarrow> for_loop sensitivity number_sens df_columns number_params is s')"

text \<open>
  Lines 16 and 17, \<^verbatim>\<open>if type(sensitivity) is not list: sensitivity = [sensitivity]\<close>:
  a list is taken as it is, and whatever is not a list, a table or a tuple alike, becomes
  the one element of a new list.
\<close>

definition wrap_list :: "arg \<Rightarrow> item list" where
  "wrap_list a =
     (case a of
        ListOf rs \<Rightarrow> map Frame rs
      | Table r \<Rightarrow> [Frame r]
      | TupleOf rs \<Rightarrow> [Tuple rs])"

text \<open>The tables among the elements of a list, in their order.\<close>

fun frames :: "item list \<Rightarrow> ref list" where
  "frames [] = []"
| "frames (Frame r # its) = r # frames its"
| "frames (Tuple rs # its) = frames its"

text \<open>The tables of the list that the function works on.\<close>

definition as_list :: "arg \<Rightarrow> ref list" where
  "as_list a = frames (wrap_list a)"

text \<open>
  Lines 19 to 78. The names are read from the first element of the list, which an empty
  list does not have; a tuple cannot be indexed by \<^verbatim>\<open>"name"\<close>, which is a
  \<^verbatim>\<open>TypeError\<close>. Past line 21 the elements of the list are tables.
\<close>

definition moment_sensitivity_plot :: "arg \<Rightarrow> state \<Rightarrow> (py_error + string) \<times> state" where
  "moment_sensitivity_plot a s =
     (let sensitivity = wrap_list a;
          number_sens = length sensitivity
      in case sensitivity of
           [] \<Rightarrow> (Inl IndexError, s)
         | Tuple rs # rest \<Rightarrow> (Inl TypeError, s)
         | Frame first # rest \<Rightarrow>
             (case getitem_to_list (Str ''name'') (deref s first) of
                Inl e \<Rightarrow> (Inl e, s)
              | Inr df_columns \<Rightarrow>
                  (case for_loop (frames sensitivity) number_sens df_columns (length df_columns)
                          [0..<number_sens] s of
                     (Inl e, s') \<Rightarrow> (Inl e, s')
                   | (Inr u, s') \<Rightarrow> (Inr ''Figures saved.'', s'))))"

section \<open>The loop as a function of the tables\<close>

text \<open>
  What the body of the loop computes from the table at one position, without the objects:
  the table that reaches the plotting library (lines 26 to 31), the name of the file and
  the figure (lines 34 to 76). These are proved below to be what the function does.
\<close>

definition reshape :: "nat \<Rightarrow> cell list \<Rightarrow> dataframe \<Rightarrow> py_error + dataframe" where
  "reshape k labels df =
     (case frame_abs (iloc_last k df) of
        Inl e \<Rightarrow> Inl e
      | Inr v \<Rightarrow>
          (case set_columns labels (getitem_last_rows k (T (iloc_last_set k df v))) of
             Inl e \<Rightarrow> Inl e
           | Inr d \<Rightarrow> reset_index d))"

definition plot_file :: "nat \<Rightarrow> string" where
  "plot_file i = ''sensitivity_plot'' @ str_nat (i + 1) @ ''.png''"

definition make_figure :: "nat \<Rightarrow> nat \<Rightarrow> dataframe \<Rightarrow> figure" where
  "make_figure number_params i d =
     (let g = PairGrid d (slice_last number_params (columns d)) [Str ''index'']
      in g\<lparr>ax_titles := set_titles (ax_titles g) titles,
           suptitle := ''Sensitivity '' @ str_nat (i + 1)\<rparr>)"

text \<open>
  The loop over positions paired with their tables: the result, and the files written
  up to the first failure.
\<close>

fun plots ::
  "nat \<Rightarrow> cell list \<Rightarrow> nat \<Rightarrow> (nat \<times> dataframe) list \<Rightarrow>
   (py_error + unit) \<times> (string \<times> figure) list" where
  "plots k labels p [] = (Inr (), [])"
| "plots k labels p ((i, df) # rest) =
     (case reshape k labels df of
        Inl e \<Rightarrow> (Inl e, [])
      | Inr d \<Rightarrow> (case plots k labels p rest of
                   (r, figs) \<Rightarrow> (r, (plot_file i, make_figure p i d) # figs)))"

definition render :: "dataframe list \<Rightarrow> (py_error + string) \<times> (string \<times> figure) list" where
  "render tabs =
     (case tabs of
        [] \<Rightarrow> (Inl IndexError, [])
      | first # rest \<Rightarrow>
          (case getitem_to_list (Str ''name'') first of
             Inl e \<Rightarrow> (Inl e, [])
           | Inr names \<Rightarrow>
               (case plots (length tabs) names (length names)
                       (map (\<lambda>i. (i, tabs ! i)) [0..<length tabs]) of
                  (Inl e, figs) \<Rightarrow> (Inl e, figs)
                | (Inr u, figs) \<Rightarrow> (Inr ''Figures saved.'', figs))))"

text \<open>The files that a call writes: what it adds to the files written before it.\<close>

definition written :: "arg \<Rightarrow> state \<Rightarrow> (string \<times> figure) list" where
  "written a s = drop (length (saved s)) (saved (snd (moment_sensitivity_plot a s)))"

text \<open>
  Each turn of the loop makes two objects, the copy of line 26 and then the table of line
  29, so the copy made for the table at position \<open>i\<close> is the object number \<open>2 * i\<close>
  among those that the call adds. This is that object as the call leaves it.
\<close>

definition copy_made :: "arg \<Rightarrow> state \<Rightarrow> nat \<Rightarrow> dataframe" where
  "copy_made a s i = deref (snd (moment_sensitivity_plot a s)) (length (heap s) + 2 * i)"

text \<open>A table after line 27: as it was when the absolute value raises.\<close>

definition abs_copy :: "nat \<Rightarrow> dataframe \<Rightarrow> dataframe" where
  "abs_copy k df =
     (case frame_abs (iloc_last k df) of
        Inl e \<Rightarrow> df
      | Inr v \<Rightarrow> iloc_last_set k df v)"

section \<open>Valid input\<close>

fun numeric :: "cell \<Rightarrow> bool" where
  "numeric (Num x) = True"
| "numeric (Str s) = False"

fun textual :: "cell \<Rightarrow> bool" where
  "textual (Num x) = False"
| "textual (Str s) = True"

text \<open>
  The value of \<open>abs_cell\<close> on a cell that has one, wrapped in the same way; a string
  is left as it is.
\<close>

fun abs_val :: "cell \<Rightarrow> cell" where
  "abs_val (Num x) = Num (wrap_int64 \<bar>x\<bar>)"
| "abs_val (Str s) = Str s"

text \<open>
  A table is valid for a call on \<open>n\<close> tables with \<open>p\<close> parameters when it is well
  shaped with \<open>p\<close> rows, has at least \<open>n\<close> columns of which the last \<open>n\<close> hold
  numbers, and has exactly one column \<^verbatim>\<open>name\<close>, which holds strings.
\<close>

definition valid_table :: "nat \<Rightarrow> nat \<Rightarrow> dataframe \<Rightarrow> bool" where
  "valid_table n p df \<longleftrightarrow>
     wf_df df \<and> length (index df) = p \<and> 0 < n \<and> n \<le> length (columns df) \<and>
     list_all (list_all numeric) (slice_last n (data df)) \<and>
     (case getitem_to_list (Str ''name'') df of
        Inl e \<Rightarrow> False
      | Inr col \<Rightarrow> list_all textual col)"

text \<open>The names that line 21 reads from the first table; none when it raises.\<close>

definition first_names :: "arg \<Rightarrow> state \<Rightarrow> cell list" where
  "first_names a s =
     (case as_list a of
        [] \<Rightarrow> []
      | first # rest \<Rightarrow>
          (case getitem_to_list (Str ''name'') (deref s first) of
             Inl e \<Rightarrow> []
           | Inr col \<Rightarrow> col))"

text \<open>
  The input is valid when there is a table, every reference is to an object, every table
  is valid for the number of tables and the number of names of the first one, and the
  names leave a label free for the column that \<open>reset_index\<close> adds.
\<close>

definition valid_input :: "arg \<Rightarrow> state \<Rightarrow> bool" where
  "valid_input a s \<longleftrightarrow>
     as_list a \<noteq> [] \<and>
     list_all (\<lambda>r. r < length (heap s) \<and>
                  valid_table (length (as_list a)) (length (first_names a s)) (deref s r))
       (as_list a) \<and>
     \<not> (Str ''index'' \<in> set (first_names a s) \<and> Str ''level_0'' \<in> set (first_names a s))"

text \<open>
  The table that \<open>reshape\<close> yields for a valid table: the added column of the old
  column labels, then one column for each row of the table, holding the absolute values
  of the last \<open>k\<close> cells of that row.
\<close>

definition index_label :: "cell list \<Rightarrow> cell" where
  "index_label labels = (if Str ''index'' \<in> set labels then Str ''level_0'' else Str ''index'')"

definition reshaped :: "nat \<Rightarrow> cell list \<Rightarrow> dataframe \<Rightarrow> dataframe" where
  "reshaped k labels df =
     \<lparr>columns = index_label labels # labels,
      index = map (\<lambda>i. Num (int i)) [0..<k],
      data = slice_last k (columns df) #
             map (\<lambda>i. map (\<lambda>col. abs_val (col ! i)) (slice_last k (data df)))
               [0..<length (index df)]\<rparr>"

section \<open>Tables used as examples\<close>

definition table_abc :: dataframe where
  "table_abc =
     \<lparr>columns = [Str ''name'', Str ''sensitivity''],
      index = [Num 0, Num 1, Num 2],
      data = [[Str ''a'', Str ''b'', Str ''c''], [Num (- 1), Num 2, Num (- 3)]]\<rparr>"

definition table_ab :: dataframe where
  "table_ab =
     \<lparr>columns = [Str ''name'', Str ''m1'', Str ''m2''],
      index = [Num 0, Num 1],
      data = [[Str ''a'', Str ''b''], [Num (- 1), Num 2], [Num 3, Num (- 4)]]\<rparr>"

definition table_cd :: dataframe where
  "table_cd =
     \<lparr>columns = [Str ''name'', Str ''m1'', Str ''m2''],
      index = [Num 0, Num 1],
      data = [[Str ''c'', Str ''d''], [Num 5, Num (- 6)], [Num (- 7), Num 8]]\<rparr>"

definition table_min :: dataframe where
  "table_min =
     \<lparr>columns = [Str ''name'', Str ''m1''],
      index = [Num 0, Num 1],
      data = [[Str ''a'', Str ''b''], [Num (- 9223372036854775808), Num (- 5)]]\<rparr>"

definition table_unnamed :: dataframe where
  "table_unnamed =
     \<lparr>columns = [Str ''parameter'', Str ''m1'', Str ''m2''],
      index = [Num 0, Num 1],
      data = [[Str ''c'', Str ''d''], [Num 5, Num (- 6)], [Num (- 7), Num 8]]\<rparr>"

section \<open>The function in terms of the tables\<close>

text \<open>
  Taking absolute values fails exactly when some cell is a string.
\<close>

lemma abs_col_eq:
  "abs_col cs = (if list_all numeric cs then Inr (map abs_val cs) else Inl TypeError)"
proof (induction cs)
  case Nil
  show ?case by simp
next
  case (Cons c cs)
  show ?case by (cases c) (simp_all add: Cons.IH)
qed

lemma abs_cols_eq:
  "abs_cols cols =
     (if list_all (list_all numeric) cols then Inr (map (map abs_val) cols) else Inl TypeError)"
  by (induction cols) (simp_all add: abs_col_eq)

text \<open>
  One turn of the loop: its result and the file it writes are those of \<open>reshape\<close>
  and \<open>make_figure\<close> on the table at that position, and it only adds objects.
\<close>

lemma loop_body_fst:
  "fst (loop_body refs k labels p i s) =
     (case reshape k labels (deref s (refs ! i)) of Inl e \<Rightarrow> Inl e | Inr d \<Rightarrow> Inr ())"
  by (simp add: loop_body_def abs_last_columns_def reshape_def alloc_def deref_def assign_def
      savefig_def Let_def split: sum.splits prod.splits)

lemma loop_body_saved:
  "saved (snd (loop_body refs k labels p i s)) =
     saved s @ (case reshape k labels (deref s (refs ! i)) of
                  Inl e \<Rightarrow> []
                | Inr d \<Rightarrow> [(plot_file i, make_figure p i d)])"
  by (simp add: loop_body_def abs_last_columns_def reshape_def alloc_def deref_def assign_def
      savefig_def plot_file_def make_figure_def Let_def split: sum.splits prod.splits)

lemma loop_body_heap:
  "\<exists>new. heap (snd (loop_body refs k labels p i s)) = heap s @ new"
  by (simp add: loop_body_def abs_last_columns_def reshape_def alloc_def deref_def assign_def
      savefig_def Let_def list_update_append split: sum.splits prod.splits)

lemma for_loop_heap:
  "\<exists>new. heap (snd (for_loop refs k labels p is s)) = heap s @ new"
proof (induction "is" arbitrary: s)
  case Nil
  show ?case by simp
next
  case (Cons i "is")
  obtain res s' where body: "loop_body refs k labels p i s = (res, s')"
    by (cases "loop_body refs k labels p i s")
  obtain new where new: "heap s' = heap s @ new"
    using loop_body_heap [of refs k labels p i s] body by auto
  show ?case
  proof (cases res)
    case (Inl e)
    with body new show ?thesis by simp
  next
    case (Inr u)
    obtain new' where "heap (snd (for_loop refs k labels p is s')) = heap s' @ new'"
      using Cons.IH by blast
    with body new Inr show ?thesis by simp
  qed
qed

lemma for_loop_plots:
  assumes "\<forall>i\<in>set is. refs ! i < length (heap s)"
  shows "fst (for_loop refs k labels p is s) =
           fst (plots k labels p (map (\<lambda>i. (i, deref s (refs ! i))) is)) \<and>
         saved (snd (for_loop refs k labels p is s)) =
           saved s @ snd (plots k labels p (map (\<lambda>i. (i, deref s (refs ! i))) is))"
  using assms
proof (induction "is" arbitrary: s)
  case Nil
  show ?case by simp
next
  case (Cons i "is")
  let ?tabs = "\<lambda>s. map (\<lambda>i. (i, deref s (refs ! i))) is"
  obtain res s' where body: "loop_body refs k labels p i s = (res, s')"
    by (cases "loop_body refs k labels p i s")
  have res: "res = (case reshape k labels (deref s (refs ! i)) of Inl e \<Rightarrow> Inl e | Inr d \<Rightarrow> Inr ())"
    using loop_body_fst [of refs k labels p i s] body by simp
  have sav: "saved s' = saved s @ (case reshape k labels (deref s (refs ! i)) of
                  Inl e \<Rightarrow> [] | Inr d \<Rightarrow> [(plot_file i, make_figure p i d)])"
    using loop_body_saved [of refs k labels p i s] body by simp
  show ?case
  proof (cases "reshape k labels (deref s (refs ! i))")
    case (Inl e)
    with body res sav show ?thesis by simp
  next
    case (Inr d)
    obtain new where new: "heap s' = heap s @ new"
      using loop_body_heap [of refs k labels p i s] body by auto
    have same: "?tabs s' = ?tabs s"
      using Cons.prems new by (simp add: deref_def nth_append)
    have "\<forall>j\<in>set is. refs ! j < length (heap s')"
      using Cons.prems new by (auto simp: trans_less_add1)
    from Cons.IH [OF this] same
    have ih: "fst (for_loop refs k labels p is s') = fst (plots k labels p (?tabs s))"
      "saved (snd (for_loop refs k labels p is s')) = saved s' @ snd (plots k labels p (?tabs s))"
      by simp_all
    from body res sav Inr ih show ?thesis
      by (simp add: split_beta)
  qed
qed

lemma frames_map_Frame: "frames (map Frame rs) = rs"
  by (induction rs) simp_all

lemma as_list_Table: "as_list (Table r) = [r]"
  by (simp add: as_list_def wrap_list_def)

lemma as_list_ListOf: "as_list (ListOf rs) = rs"
  by (simp add: as_list_def wrap_list_def frames_map_Frame)

lemma as_list_TupleOf: "as_list (TupleOf rs) = []"
  by (simp add: as_list_def wrap_list_def)

lemma msp_tuple: "moment_sensitivity_plot (TupleOf rs) s = (Inl TypeError, s)"
  by (simp add: moment_sensitivity_plot_def wrap_list_def)

text \<open>For a table or a list of tables, the function in terms of the list of tables.\<close>

lemma msp_unfold:
  assumes "\<forall>rs. a \<noteq> TupleOf rs"
  shows "moment_sensitivity_plot a s =
     (case as_list a of
        [] \<Rightarrow> (Inl IndexError, s)
      | first # rest \<Rightarrow>
          (case getitem_to_list (Str ''name'') (deref s first) of
             Inl e \<Rightarrow> (Inl e, s)
           | Inr df_columns \<Rightarrow>
               (case for_loop (as_list a) (length (as_list a)) df_columns (length df_columns)
                       [0..<length (as_list a)] s of
                  (Inl e, s') \<Rightarrow> (Inl e, s')
                | (Inr u, s') \<Rightarrow> (Inr ''Figures saved.'', s'))))"
proof (cases a)
  case (Table r)
  show ?thesis
    unfolding Table as_list_Table
    by (simp add: moment_sensitivity_plot_def wrap_list_def split: sum.splits)
next
  case (ListOf rs)
  show ?thesis
    unfolding ListOf as_list_ListOf
    by (cases rs)
      (simp_all add: moment_sensitivity_plot_def wrap_list_def frames_map_Frame
        del: upt_Suc split: sum.splits)
next
  case (TupleOf rs)
  with assms show ?thesis by simp
qed

lemma not_tuple: "as_list a \<noteq> [] \<Longrightarrow> \<forall>rs. a \<noteq> TupleOf rs"
  by (auto simp: as_list_TupleOf)

lemma render_nonempty:
  assumes "tabs \<noteq> []" and "getitem_to_list (Str ''name'') (hd tabs) = Inr names"
  shows "render tabs =
           (case plots (length tabs) names (length names)
                   (map (\<lambda>i. (i, tabs ! i)) [0..<length tabs]) of
              (Inl e, figs) \<Rightarrow> (Inl e, figs)
            | (Inr u, figs) \<Rightarrow> (Inr ''Figures saved.'', figs))"
  using assms by (cases tabs) (simp_all add: render_def del: upt_Suc)

text \<open>
  The function, called on references to objects, returns what \<open>render\<close> returns on the
  tables they refer to, and writes the files that \<open>render\<close> lists.
\<close>

lemma msp_render:
  assumes refs: "\<forall>r\<in>set (as_list a). r < length (heap s)"
    and nt: "\<forall>rs. a \<noteq> TupleOf rs"
  shows "fst (moment_sensitivity_plot a s) = fst (render (map (deref s) (as_list a)))"
    and "written a s = snd (render (map (deref s) (as_list a)))"
proof -
  let ?refs = "as_list a"
  let ?n = "length ?refs"
  have both: "fst (moment_sensitivity_plot a s) = fst (render (map (deref s) ?refs)) \<and>
              written a s = snd (render (map (deref s) ?refs))"
  proof (cases ?refs)
    case Nil
    then show ?thesis
      by (simp add: msp_unfold [OF nt] render_def written_def)
  next
    case (Cons first rest)
    show ?thesis
    proof (cases "getitem_to_list (Str ''name'') (deref s first)")
      case (Inl e)
      with Cons show ?thesis
        by (simp add: msp_unfold [OF nt] render_def written_def)
    next
      case (Inr names)
      let ?tabs = "map (\<lambda>i. (i, deref s (?refs ! i))) [0..<?n]"
      have "\<forall>i\<in>set [0..<?n]. ?refs ! i < length (heap s)"
        using refs by simp
      from for_loop_plots [OF this, of ?n names "length names"]
      have loop: "fst (for_loop ?refs ?n names (length names) [0..<?n] s) =
                    fst (plots ?n names (length names) ?tabs)"
                 "saved (snd (for_loop ?refs ?n names (length names) [0..<?n] s)) =
                    saved s @ snd (plots ?n names (length names) ?tabs)"
        by simp_all
      have tabs: "map (\<lambda>i. (i, map (deref s) ?refs ! i)) [0..<length (map (deref s) ?refs)] = ?tabs"
        by simp
      have ne: "map (deref s) ?refs \<noteq> []" and hd: "hd (map (deref s) ?refs) = deref s first"
        using Cons by simp_all
      obtain res s' where fl: "for_loop ?refs ?n names (length names) [0..<?n] s = (res, s')"
        by (cases "for_loop ?refs ?n names (length names) [0..<?n] s")
      obtain res' figs where pl: "plots ?n names (length names) ?tabs = (res', figs)"
        by (cases "plots ?n names (length names) ?tabs")
      from loop fl pl have eq: "res = res'" "saved s' = saved s @ figs" by simp_all
      have m: "moment_sensitivity_plot a s =
                 (case res of Inl e \<Rightarrow> (Inl e, s') | Inr u \<Rightarrow> (Inr ''Figures saved.'', s'))"
        using Cons Inr fl
        by (simp add: msp_unfold [OF nt] split: sum.splits)
      have r: "render (map (deref s) ?refs) =
                 (case res' of Inl e \<Rightarrow> (Inl e, figs) | Inr u \<Rightarrow> (Inr ''Figures saved.'', figs))"
        using render_nonempty [OF ne, of names] Inr pl
        unfolding hd tabs by simp
      show ?thesis
        unfolding m r written_def using eq by (simp split: sum.splits)
    qed
  qed
  from both show "fst (moment_sensitivity_plot a s) = fst (render (map (deref s) ?refs))" ..
  from both show "written a s = snd (render (map (deref s) ?refs))" ..
qed

lemma msp_heap: "\<exists>new. heap (snd (moment_sensitivity_plot a s)) = heap s @ new"
proof (cases "\<forall>rs. a \<noteq> TupleOf rs")
  case False
  then show ?thesis by (auto simp: msp_tuple)
next
  case nt: True
  show ?thesis
  proof (cases "as_list a")
    case Nil
    then show ?thesis by (simp add: msp_unfold [OF nt])
  next
    case (Cons first rest)
    show ?thesis
    proof (cases "getitem_to_list (Str ''name'') (deref s first)")
      case (Inl e)
      with Cons show ?thesis by (simp add: msp_unfold [OF nt])
    next
      case (Inr names)
      let ?n = "length (as_list a)"
      obtain res s' where fl: "for_loop (as_list a) ?n names (length names) [0..<?n] s = (res, s')"
        by (cases "for_loop (as_list a) ?n names (length names) [0..<?n] s")
      obtain new where "heap s' = heap s @ new"
        using for_loop_heap [of "as_list a" ?n names "length names" "[0..<?n]" s] fl by auto
      moreover have "snd (moment_sensitivity_plot a s) = s'"
        using Cons Inr fl by (simp add: msp_unfold [OF nt] split: sum.splits)
      ultimately show ?thesis by simp
    qed
  qed
qed

section \<open>Valid input is processed to the end\<close>

lemma length_slice_last: "0 < k \<Longrightarrow> k \<le> length xs \<Longrightarrow> length (slice_last k xs) = k"
  by (simp add: slice_last_def neg_start_def)

lemma slice_last_map: "slice_last k (map f xs) = map f (slice_last k xs)"
  by (simp add: slice_last_def neg_start_def drop_map)

lemma slice_last_set: "set (slice_last k xs) \<subseteq> set xs"
  by (simp add: slice_last_def set_drop_subset)

lemma slice_last_replace:
  "length ys = length (slice_last k xs) \<Longrightarrow>
   slice_last k (take (neg_start k xs) xs @ ys) = ys"
  by (auto simp: slice_last_def neg_start_def)

lemma reshape_valid:
  assumes wf: "wf_df df"
    and k: "0 < k" "k \<le> length (columns df)"
    and num: "list_all (list_all numeric) (slice_last k (data df))"
    and len: "length labels = length (index df)"
    and ok: "\<not> (Str ''index'' \<in> set labels \<and> Str ''level_0'' \<in> set labels)"
  shows "reshape k labels df = Inr (reshaped k labels df)"
proof -
  let ?last = "slice_last k (data df)"
  let ?v = "\<lparr>columns = slice_last k (columns df), index = index df,
            data = map (map abs_val) ?last\<rparr>"
  have absd: "frame_abs (iloc_last k df) = Inr ?v"
    using num by (simp add: frame_abs_def iloc_last_def abs_cols_eq)
  let ?df1 = "iloc_last_set k df ?v"
  have d1: "slice_last k (data ?df1) = map (map abs_val) ?last"
    by (simp add: iloc_last_set_def slice_last_replace)
  have rows: "\<And>i. i < length (index df) \<Longrightarrow>
      map (\<lambda>col. col ! i) (map (map abs_val) ?last) = map (\<lambda>col. abs_val (col ! i)) ?last"
  proof -
    fix i assume i: "i < length (index df)"
    have "\<forall>col\<in>set ?last. length col = length (index df)"
      using wf slice_last_set [of k "data df"] by (auto simp: wf_df_def list_all_iff)
    with i show "map (\<lambda>col. col ! i) (map (map abs_val) ?last) = map (\<lambda>col. abs_val (col ! i)) ?last"
      by simp
  qed
  let ?t = "getitem_last_rows k (T ?df1)"
  have t: "?t = \<lparr>columns = index df, index = slice_last k (columns df),
                data = map (\<lambda>i. map (\<lambda>col. abs_val (col ! i)) ?last) [0..<length (index df)]\<rparr>"
  proof -
    have "data ?t = map (\<lambda>i. slice_last k (map (\<lambda>col. col ! i) (data ?df1))) [0..<length (index df)]"
      by (simp add: getitem_last_rows_def T_def iloc_last_set_def comp_def)
    also have "\<dots> = map (\<lambda>i. map (\<lambda>col. col ! i) (map (map abs_val) ?last)) [0..<length (index df)]"
      by (simp only: slice_last_map d1)
    also have "\<dots> = map (\<lambda>i. map (\<lambda>col. abs_val (col ! i)) ?last) [0..<length (index df)]"
      using rows by simp
    finally have "data ?t = map (\<lambda>i. map (\<lambda>col. abs_val (col ! i)) ?last) [0..<length (index df)]" .
    moreover have "columns ?t = index df" "index ?t = slice_last k (columns df)"
      by (simp_all add: getitem_last_rows_def T_def iloc_last_set_def)
    ultimately show ?thesis by simp
  qed
  have sc: "set_columns labels ?t = Inr (?t\<lparr>columns := labels\<rparr>)"
    unfolding t using len by (simp add: set_columns_def)
  have ri: "reset_index (?t\<lparr>columns := labels\<rparr>) = Inr (reshaped k labels df)"
    unfolding t using ok k
    by (auto simp: reset_index_def reshaped_def index_label_def Let_def length_slice_last)
  show ?thesis
    unfolding reshape_def absd using sc ri by simp
qed

lemma wf_reshaped:
  assumes "wf_df df" "0 < k" "k \<le> length (columns df)" "length labels = length (index df)"
  shows "wf_df (reshaped k labels df)"
  using assms by (simp add: wf_df_def reshaped_def length_slice_last list_all_iff)

lemma plots_valid:
  assumes "\<forall>(i, df)\<in>set ts. reshape k labels df = Inr (reshaped k labels df)"
  shows "plots k labels p ts =
           (Inr (), map (\<lambda>(i, df). (plot_file i, make_figure p i (reshaped k labels df))) ts)"
  using assms by (induction ts) auto

lemma msp_valid:
  assumes v: "valid_input a s"
  shows "fst (moment_sensitivity_plot a s) = Inr ''Figures saved.''"
    and "written a s =
           map (\<lambda>i. (plot_file i,
                     make_figure (length (first_names a s)) i
                       (reshaped (length (as_list a)) (first_names a s) (deref s (as_list a ! i)))))
             [0..<length (as_list a)]"
proof -
  let ?refs = "as_list a"
  let ?n = "length ?refs"
  let ?names = "first_names a s"
  let ?tabs = "map (deref s) ?refs"
  from v have ne: "?refs \<noteq> []" by (simp add: valid_input_def)
  from ne have nt: "\<forall>rs. a \<noteq> TupleOf rs" by (rule not_tuple)
  from v have refs: "\<forall>r\<in>set ?refs. r < length (heap s)"
    by (simp add: valid_input_def list_all_iff)
  from v have vt: "\<forall>r\<in>set ?refs. valid_table ?n (length ?names) (deref s r)"
    by (simp add: valid_input_def list_all_iff)
  from v have ok: "\<not> (Str ''index'' \<in> set ?names \<and> Str ''level_0'' \<in> set ?names)"
    by (simp add: valid_input_def)
  have "hd ?refs \<in> set ?refs" using ne by simp
  with vt have "valid_table ?n (length ?names) (deref s (hd ?refs))" by blast
  then obtain col where col: "getitem_to_list (Str ''name'') (deref s (hd ?refs)) = Inr col"
    by (auto simp: valid_table_def split: sum.splits)
  with ne have names: "?names = col"
    by (cases ?refs) (simp_all add: first_names_def)
  have tne: "?tabs \<noteq> []" using ne by simp
  have thd: "getitem_to_list (Str ''name'') (hd ?tabs) = Inr ?names"
    using ne col names by (simp add: hd_map)
  have each: "\<forall>(i, df)\<in>set (map (\<lambda>i. (i, ?tabs ! i)) [0..<length ?tabs]).
                reshape ?n ?names df = Inr (reshaped ?n ?names df)"
  proof -
    have "reshape ?n ?names (deref s (?refs ! i)) = Inr (reshaped ?n ?names (deref s (?refs ! i)))"
      if "i < ?n" for i
    proof -
      from that vt have "valid_table ?n (length ?names) (deref s (?refs ! i))" by simp
      then show ?thesis
        using ok by (intro reshape_valid) (simp_all add: valid_table_def)
    qed
    then show ?thesis by simp
  qed
  have pl: "plots ?n ?names (length ?names) (map (\<lambda>i. (i, ?tabs ! i)) [0..<length ?tabs]) =
          (Inr (), map (\<lambda>i. (plot_file i, make_figure (length ?names) i
                                (reshaped ?n ?names (deref s (?refs ! i))))) [0..<?n])"
    using plots_valid [OF each, of "length ?names"] by (simp add: comp_def)
  have r: "render ?tabs =
          (Inr ''Figures saved.'', map (\<lambda>i. (plot_file i, make_figure (length ?names) i
                                (reshaped ?n ?names (deref s (?refs ! i))))) [0..<?n])"
    using render_nonempty [OF tne thd] pl by simp
  show "fst (moment_sensitivity_plot a s) = Inr ''Figures saved.''"
    using msp_render(1) [OF refs nt] r by simp
  show "written a s =
           map (\<lambda>i. (plot_file i, make_figure (length ?names) i
                        (reshaped ?n ?names (deref s (?refs ! i))))) [0..<?n]"
    using msp_render(2) [OF refs nt] r by simp
qed

lemma written_nth:
  assumes "valid_input a s" and "i < length (as_list a)"
  shows "written a s ! i =
           (plot_file i,
            make_figure (length (first_names a s)) i
              (reshaped (length (as_list a)) (first_names a s) (deref s (as_list a ! i))))"
  using assms by (simp add: msp_valid(2))

lemma fig_data_make_figure: "fig_data (make_figure p i d) = d"
  by (simp add: make_figure_def PairGrid_def Let_def)

lemma valid_input_table:
  assumes "valid_input a s" and "i < length (as_list a)"
  shows "valid_table (length (as_list a)) (length (first_names a s)) (deref s (as_list a ! i))"
  using assms by (simp add: valid_input_def list_all_length)

lemma getitem_missing:
  "key \<notin> set (columns df) \<Longrightarrow> getitem_to_list key df = Inl KeyError"
proof -
  assume "key \<notin> set (columns df)"
  then have "filter (\<lambda>p. fst p = key) (zip (columns df) (data df)) = []"
    by (auto simp: filter_empty_conv dest: set_zip_leftD)
  then show ?thesis by (simp add: getitem_to_list_def)
qed

lemma filter_zip_map_fixed:
  assumes "\<forall>(x, y)\<in>set (zip xs ys). x = key \<longrightarrow> f y = y"
  shows "filter (\<lambda>p. fst p = key) (zip xs (map f ys)) = filter (\<lambda>p. fst p = key) (zip xs ys)"
  using assms
proof (induction xs arbitrary: ys)
  case Nil
  show ?case by simp
next
  case (Cons x xs)
  show ?case
  proof (cases ys)
    case Nil
    then show ?thesis by simp
  next
    case (Cons y ys')
    with Cons.prems Cons.IH [of ys'] show ?thesis by auto
  qed
qed

lemma str_and_num_empty: "list_all textual col \<Longrightarrow> list_all numeric col \<Longrightarrow> col = []"
proof (cases col)
  case Nil
  then show ?thesis by simp
next
  case (Cons c cs)
  assume "list_all textual col" "list_all numeric col"
  with Cons show ?thesis by (cases c) simp_all
qed

lemma getitem_member:
  assumes "getitem_to_list key df = Inr col"
    and "(key, d) \<in> set (zip (columns df) (data df))"
  shows "d = col"
proof -
  let ?hits = "map snd (filter (\<lambda>p. fst p = key) (zip (columns df) (data df)))"
  from assms(1) have "?hits = [col]"
    by (simp add: getitem_to_list_def split: list.splits)
  moreover from assms(2) have "d \<in> set ?hits" by force
  ultimately show ?thesis by simp
qed

lemma abs_keeps_name_column:
  assumes v: "valid_table n p df"
  shows "getitem_to_list (Str ''name'')
           (df\<lparr>data := take (length (columns df) - n) (data df) @
                        map (map abs_val) (drop (length (columns df) - n) (data df))\<rparr>) =
         getitem_to_list (Str ''name'') df"
proof -
  let ?m = "length (columns df) - n"
  let ?key = "Str ''name''"
  from v obtain col where col: "getitem_to_list ?key df = Inr col" and str: "list_all textual col"
    by (auto simp: valid_table_def split: sum.splits)
  from v have len: "length (data df) = length (columns df)" and n: "0 < n"
    and num0: "list_all (list_all numeric) (slice_last n (data df))"
    by (simp_all add: valid_table_def wf_df_def)
  from num0 n len have num: "list_all (list_all numeric) (drop ?m (data df))"
    by (simp add: slice_last_def neg_start_def)
  have fixed: "\<forall>(x, y)\<in>set (zip (drop ?m (columns df)) (drop ?m (data df))).
                 x = ?key \<longrightarrow> map abs_val y = y"
  proof (clarify)
    fix y assume mem: "(?key, y) \<in> set (zip (drop ?m (columns df)) (drop ?m (data df)))"
    then have "(?key, y) \<in> set (zip (columns df) (data df))"
      unfolding drop_zip [symmetric] by (rule in_set_dropD)
    with col have "y = col" by (rule getitem_member)
    moreover from mem have "y \<in> set (drop ?m (data df))" by (rule set_zip_rightD)
    with num have "list_all numeric y" by (simp add: list_all_iff)
    ultimately have "y = []" using str by (simp add: str_and_num_empty)
    then show "map abs_val y = y" by simp
  qed
  have split: "zip (columns df) (take ?m (data df) @ map (map abs_val) (drop ?m (data df))) =
          zip (take ?m (columns df)) (take ?m (data df)) @
          zip (drop ?m (columns df)) (map (map abs_val) (drop ?m (data df)))"
    using len by (simp add: zip_append2)
  have orig: "zip (columns df) (data df) =
          zip (take ?m (columns df)) (take ?m (data df)) @
          zip (drop ?m (columns df)) (drop ?m (data df))"
    by (simp add: take_zip [symmetric] drop_zip [symmetric])
  let ?P = "\<lambda>p::cell \<times> cell list. fst p = ?key"
  have "filter ?P (zip (columns df) (take ?m (data df) @ map (map abs_val) (drop ?m (data df)))) =
        filter ?P (zip (take ?m (columns df)) (take ?m (data df))) @
        filter ?P (zip (drop ?m (columns df)) (map (map abs_val) (drop ?m (data df))))"
    by (simp only: split filter_append)
  also have "\<dots> = filter ?P (zip (take ?m (columns df)) (take ?m (data df))) @
        filter ?P (zip (drop ?m (columns df)) (drop ?m (data df)))"
    by (simp only: filter_zip_map_fixed [OF fixed])
  also have "\<dots> = filter ?P (zip (columns df) (data df))"
    by (subst orig) (simp only: filter_append)
  finally have "filter ?P
          (zip (columns df) (take ?m (data df) @ map (map abs_val) (drop ?m (data df)))) =
        filter ?P (zip (columns df) (data df))" .
  then show ?thesis by (simp add: getitem_to_list_def)
qed

section \<open>The objects that a call on valid input makes\<close>

lemma loop_body_objects:
  assumes "reshape k labels (deref s (refs ! i)) = Inr d"
  shows "heap (snd (loop_body refs k labels p i s)) =
           heap s @ [abs_copy k (deref s (refs ! i)), d]"
proof -
  let ?t = "deref s (refs ! i)"
  from assms obtain v d1 where v: "frame_abs (iloc_last k ?t) = Inr v"
    and d1: "set_columns labels (getitem_last_rows k (T (iloc_last_set k ?t v))) = Inr d1"
    and d: "reset_index d1 = Inr d"
    by (auto simp: reshape_def split: sum.splits)
  have c: "abs_copy k ?t = iloc_last_set k ?t v"
    using v by (simp add: abs_copy_def)
  have at1: "(heap s @ [x]) ! length (heap s) = x" for x :: dataframe
    by simp
  have at2: "(heap s @ [x, y]) ! Suc (length (heap s)) = y" for x y :: dataframe
    by (simp add: nth_append)
  have up1: "(heap s @ [x])[length (heap s) := y] = heap s @ [y]" for x y :: dataframe
    by simp
  have up2: "(heap s @ [x, y])[Suc (length (heap s)) := z] = heap s @ [x, z]"
    for x y z :: dataframe
    by (simp add: list_update_append)
  show ?thesis
    unfolding c
    using v d1 d
    by (simp add: loop_body_def abs_last_columns_def alloc_def deref_def assign_def savefig_def
        Let_def at1 at2 up1 up2)
qed

lemma for_loop_objects:
  assumes "\<forall>i\<in>set is. refs ! i < length (heap s) \<and>
             reshape k labels (deref s (refs ! i)) = Inr (reshaped k labels (deref s (refs ! i)))"
  shows "heap (snd (for_loop refs k labels p is s)) =
           heap s @ concat (map (\<lambda>i. [abs_copy k (deref s (refs ! i)),
                                         reshaped k labels (deref s (refs ! i))]) is)"
  using assms
proof (induction "is" arbitrary: s)
  case Nil
  show ?case by simp
next
  case (Cons i "is")
  let ?objs = "\<lambda>s. map (\<lambda>i. [abs_copy k (deref s (refs ! i)),
                                reshaped k labels (deref s (refs ! i))]) is"
  obtain res s' where body: "loop_body refs k labels p i s = (res, s')"
    by (cases "loop_body refs k labels p i s")
  from Cons.prems
  have ok: "reshape k labels (deref s (refs ! i)) = Inr (reshaped k labels (deref s (refs ! i)))"
    by simp
  have res: "res = Inr ()"
    using loop_body_fst [of refs k labels p i s] body ok by simp
  have new: "heap s' = heap s @ [abs_copy k (deref s (refs ! i)),
                                 reshaped k labels (deref s (refs ! i))]"
    using loop_body_objects [OF ok, of p] body by simp
  have same: "\<forall>j\<in>set is. deref s' (refs ! j) = deref s (refs ! j)"
    using Cons.prems new by (simp add: deref_def nth_append)
  then have objs: "?objs s' = ?objs s" by simp
  have "\<forall>j\<in>set is. refs ! j < length (heap s') \<and>
          reshape k labels (deref s' (refs ! j)) = Inr (reshaped k labels (deref s' (refs ! j)))"
    using Cons.prems new same by (auto simp: trans_less_add1)
  from Cons.IH [OF this]
  have "heap (snd (for_loop refs k labels p is s')) = heap s' @ concat (?objs s)"
    unfolding objs .
  with body res new show ?case by simp
qed

lemma length_concat_pairs: "length (concat (map (\<lambda>i. [A i, B i]) [0..<n])) = 2 * n"
  by (induction n) simp_all

lemma nth_concat_pairs:
  "i < n \<Longrightarrow> concat (map (\<lambda>i. [A i, B i]) [0..<n]) ! (2 * i) = A i"
proof (induction n)
  case 0
  then show ?case by simp
next
  case (Suc n)
  show ?case
  proof (cases "i < n")
    case True
    with Suc.IH show ?thesis
      by (simp add: nth_append length_concat_pairs)
  next
    case False
    with Suc.prems have "i = n" by simp
    then show ?thesis
      by (simp add: nth_append length_concat_pairs)
  qed
qed

lemma copy_made_valid:
  assumes v: "valid_input a s" and i: "i < length (as_list a)"
  shows "copy_made a s i = abs_copy (length (as_list a)) (deref s (as_list a ! i))"
proof -
  let ?refs = "as_list a"
  let ?n = "length ?refs"
  let ?names = "first_names a s"
  from v have ne: "?refs \<noteq> []" by (simp add: valid_input_def)
  from ne have nt: "\<forall>rs. a \<noteq> TupleOf rs" by (rule not_tuple)
  from v have refs: "\<forall>r\<in>set ?refs. r < length (heap s)"
    by (simp add: valid_input_def list_all_iff)
  from v have vt: "\<forall>r\<in>set ?refs. valid_table ?n (length ?names) (deref s r)"
    by (simp add: valid_input_def list_all_iff)
  from v have ok: "\<not> (Str ''index'' \<in> set ?names \<and> Str ''level_0'' \<in> set ?names)"
    by (simp add: valid_input_def)
  obtain first rest where l: "?refs = first # rest"
    using ne by (cases ?refs) auto
  have "valid_table ?n (length ?names) (deref s first)"
    using vt l by simp
  then obtain col where col: "getitem_to_list (Str ''name'') (deref s first) = Inr col"
    by (auto simp: valid_table_def split: sum.splits)
  with l have names: "?names = col" by (simp add: first_names_def)
  have each: "\<forall>j\<in>set [0..<?n]. ?refs ! j < length (heap s) \<and>
        reshape ?n ?names (deref s (?refs ! j)) = Inr (reshaped ?n ?names (deref s (?refs ! j)))"
  proof
    fix j assume "j \<in> set [0..<?n]"
    then have j: "j < ?n" by simp
    with vt have "valid_table ?n (length ?names) (deref s (?refs ! j))" by simp
    then have "reshape ?n ?names (deref s (?refs ! j)) =
                 Inr (reshaped ?n ?names (deref s (?refs ! j)))"
      using ok by (intro reshape_valid) (simp_all add: valid_table_def)
    with refs j
    show "?refs ! j < length (heap s) \<and>
          reshape ?n ?names (deref s (?refs ! j)) = Inr (reshaped ?n ?names (deref s (?refs ! j)))"
      by simp
  qed
  obtain res s' where fl: "for_loop ?refs ?n ?names (length ?names) [0..<?n] s = (res, s')"
    by (cases "for_loop ?refs ?n ?names (length ?names) [0..<?n] s")
  have end_state: "snd (moment_sensitivity_plot a s) = s'"
    using l col names fl by (simp add: msp_unfold [OF nt] split: sum.splits)
  have "heap s' = heap s @ concat (map (\<lambda>j. [abs_copy ?n (deref s (?refs ! j)),
                                               reshaped ?n ?names (deref s (?refs ! j))]) [0..<?n])"
    using for_loop_objects [OF each, of "length ?names"] fl by simp
  then show ?thesis
    unfolding copy_made_def end_state deref_def using i
    by (simp add: nth_concat_pairs)
qed

lemma abs_copy_valid:
  assumes v: "valid_table n p df"
  shows "abs_copy n df =
           df\<lparr>data := take (length (columns df) - n) (data df) @
                        map (map abs_val) (drop (length (columns df) - n) (data df))\<rparr>"
proof -
  from v have len: "length (data df) = length (columns df)" and n: "0 < n"
    and num: "list_all (list_all numeric) (slice_last n (data df))"
    by (simp_all add: valid_table_def wf_df_def)
  have "frame_abs (iloc_last n df) =
          Inr ((iloc_last n df)\<lparr>data := map (map abs_val) (slice_last n (data df))\<rparr>)"
    using num by (simp add: frame_abs_def iloc_last_def abs_cols_eq)
  then show ?thesis
    using n len by (simp add: abs_copy_def iloc_last_set_def iloc_last_def
        slice_last_def neg_start_def)
qed

lemma plot_file_first: "plot_file 0 = ''sensitivity_plot1.png''"
  by code_simp

section \<open>An empty list, and a single table\<close>

text \<open>
  C10. Called with an empty list of tables, the function raises \<^verbatim>\<open>IndexError\<close>
  when it reads the first table for its names: no table has been processed and no file
  written, and the state is the one it was called in.
\<close>

theorem empty_list_index_error:
  "moment_sensitivity_plot (ListOf []) s = (Inl IndexError, s)"
  by (simp add: moment_sensitivity_plot_def wrap_list_def)

text \<open>
  C8, as amended. The function takes a single table or a list of tables. A single table
  is treated as the list of length 1 that holds it and processed as that list is: the two
  calls give the same result and the same state, and for a valid table with at least one
  name and no name twice the call returns its message and writes the one file
  \<^verbatim>\<open>sensitivity_plot1.png\<close>, whose table is reshaped from the last 1 column.
\<close>

theorem single_table_as_list:
  "moment_sensitivity_plot (Table r) s = moment_sensitivity_plot (ListOf [r]) s \<and>
   (r < length (heap s) \<and> getitem_to_list (Str ''name'') (deref s r) = Inr names \<and>
    names \<noteq> [] \<and> distinct names \<and> valid_table 1 (length names) (deref s r) \<and>
    \<not> (Str ''index'' \<in> set names \<and> Str ''level_0'' \<in> set names) \<longrightarrow>
    fst (moment_sensitivity_plot (Table r) s) = Inr ''Figures saved.'' \<and>
    written (Table r) s =
      [(''sensitivity_plot1.png'', make_figure (length names) 0 (reshaped 1 names (deref s r)))])"
proof (intro conjI impI)
  show "moment_sensitivity_plot (Table r) s = moment_sensitivity_plot (ListOf [r]) s"
    by (simp add: moment_sensitivity_plot_def wrap_list_def)
next
  assume h: "r < length (heap s) \<and> getitem_to_list (Str ''name'') (deref s r) = Inr names \<and>
    names \<noteq> [] \<and> distinct names \<and> valid_table 1 (length names) (deref s r) \<and>
    \<not> (Str ''index'' \<in> set names \<and> Str ''level_0'' \<in> set names)"
  then have n: "first_names (Table r) s = names"
    by (simp add: first_names_def as_list_Table)
  from h have v: "valid_input (Table r) s"
    by (simp add: valid_input_def n as_list_Table)
  from msp_valid(1) [OF v]
  show "fst (moment_sensitivity_plot (Table r) s) = Inr ''Figures saved.''" .
  from msp_valid(2) [OF v]
  show "written (Table r) s =
      [(''sensitivity_plot1.png'', make_figure (length names) 0 (reshaped 1 names (deref s r)))]"
    by (simp add: n as_list_Table plot_file_first)
qed

theorem single_table_as_list_witness:
  "(0::nat) < length (heap \<lparr>heap = [table_abc], saved = []\<rparr>) \<and>
   getitem_to_list (Str ''name'') (deref \<lparr>heap = [table_abc], saved = []\<rparr> 0) =
     Inr [Str ''a'', Str ''b'', Str ''c''] \<and>
   [Str ''a'', Str ''b'', Str ''c''] \<noteq> [] \<and>
   distinct [Str ''a'', Str ''b'', Str ''c''] \<and>
   valid_table 1 (length [Str ''a'', Str ''b'', Str ''c''])
     (deref \<lparr>heap = [table_abc], saved = []\<rparr> 0) \<and>
   moment_sensitivity_plot (Table 0) \<lparr>heap = [table_abc], saved = []\<rparr> =
   moment_sensitivity_plot (ListOf [0]) \<lparr>heap = [table_abc], saved = []\<rparr> \<and>
   fst (moment_sensitivity_plot (Table 0) \<lparr>heap = [table_abc], saved = []\<rparr>) =
     Inr ''Figures saved.'' \<and>
   written (Table 0) \<lparr>heap = [table_abc], saved = []\<rparr> =
     [(''sensitivity_plot1.png'',
       make_figure (length [Str ''a'', Str ''b'', Str ''c'']) 0
         (reshaped 1 [Str ''a'', Str ''b'', Str ''c'']
           (deref \<lparr>heap = [table_abc], saved = []\<rparr> 0)))]"
proof -
  let ?s = "\<lparr>heap = [table_abc], saved = []\<rparr>"
  let ?names = "[Str ''a'', Str ''b'', Str ''c'']"
  have r: "(0::nat) < length (heap ?s)" by simp
  have g: "getitem_to_list (Str ''name'') (deref ?s 0) = Inr ?names" by code_simp
  have e: "?names \<noteq> []" by simp
  have d: "distinct ?names" by simp
  have v: "valid_table 1 (length ?names) (deref ?s 0)" by code_simp
  have k: "\<not> (Str ''index'' \<in> set ?names \<and> Str ''level_0'' \<in> set ?names)" by simp
  from single_table_as_list [of 0 ?s ?names] r g e d v k show ?thesis by blast
qed

text \<open>
  C8 as stated fails for a sequence that is not a list: the tuple of one table is not
  taken as a sequence of length 1 but wrapped as if it were a table, and the call raises
  \<^verbatim>\<open>TypeError\<close> where the call on the list of this table returns its message.
\<close>

theorem tuple_not_taken_as_sequence:
  "moment_sensitivity_plot (TupleOf [0]) \<lparr>heap = [table_abc], saved = []\<rparr> =
     (Inl TypeError, \<lparr>heap = [table_abc], saved = []\<rparr>) \<and>
   fst (moment_sensitivity_plot (ListOf [0]) \<lparr>heap = [table_abc], saved = []\<rparr>) =
     Inr ''Figures saved.''"
  by code_simp

section \<open>The reshaped table\<close>

text \<open>
  C1, as amended. For every valid input and every position \<open>i\<close> in it, the table
  reshaped for position \<open>i\<close> has, after the column that \<open>reset_index\<close> adds, its
  columns labelled with the values of the \<^verbatim>\<open>name\<close> column of the first table of
  the input, in their order there; the names of the table at position \<open>i\<close> itself are
  not read.
\<close>

theorem columns_from_first_table:
  assumes "valid_input a s" and "i < length (as_list a)"
  shows "columns (fig_data (snd (written a s ! i))) =
           (if Str ''index'' \<in> set (first_names a s) then Str ''level_0'' else Str ''index'')
           # first_names a s"
  using assms by (simp add: written_nth fig_data_make_figure reshaped_def index_label_def)

theorem columns_from_first_table_witness:
  "valid_input (ListOf [0, 1]) \<lparr>heap = [table_ab, table_cd], saved = []\<rparr> \<and>
   (1::nat) < length (as_list (ListOf [0, 1])) \<and>
   columns (fig_data (snd (written (ListOf [0, 1]) \<lparr>heap = [table_ab, table_cd], saved = []\<rparr> ! 1))) =
     [Str ''index'', Str ''a'', Str ''b'']"
proof -
  let ?s = "\<lparr>heap = [table_ab, table_cd], saved = []\<rparr>"
  have v: "valid_input (ListOf [0, 1]) ?s" by code_simp
  have i: "(1::nat) < length (as_list (ListOf [0, 1]))" by (simp add: as_list_ListOf as_list_Table)
  have n: "first_names (ListOf [0, 1]) ?s = [Str ''a'', Str ''b'']" by code_simp
  from columns_from_first_table [OF v i] v i show ?thesis
    unfolding n by simp
qed

text \<open>
  C1 as stated fails: of two tables with the names \<open>a, b\<close> and \<open>c, d\<close>, the second is
  reshaped into a table whose columns are labelled \<open>a, b\<close>.
\<close>

theorem columns_not_from_own_table:
  "getitem_to_list (Str ''name'') (deref \<lparr>heap = [table_ab, table_cd], saved = []\<rparr> 1) =
     Inr [Str ''c'', Str ''d''] \<and>
   columns (fig_data (snd (written (ListOf [0, 1]) \<lparr>heap = [table_ab, table_cd], saved = []\<rparr> ! 1))) =
     [Str ''index'', Str ''a'', Str ''b''] \<and>
   columns (fig_data (snd (written (ListOf [0, 1]) \<lparr>heap = [table_ab, table_cd], saved = []\<rparr> ! 1))) \<noteq>
     [Str ''c'', Str ''d''] \<and>
   tl (columns (fig_data (snd (written (ListOf [0, 1]) \<lparr>heap = [table_ab, table_cd], saved = []\<rparr> ! 1)))) \<noteq>
     [Str ''c'', Str ''d'']"
  by code_simp

text \<open>
  C2, as amended. For every valid input of \<open>N\<close> tables whose \<^verbatim>\<open>name\<close> column
  has length \<open>P\<close>, each reshaped table has exactly \<open>P + 1\<close> columns, the added
  column of the old column labels and the \<open>P\<close> relabelled ones, and exactly \<open>N\<close>
  rows.
\<close>

theorem reshaped_shape:
  assumes "valid_input a s" and "i < length (as_list a)"
  shows "length (columns (fig_data (snd (written a s ! i)))) = Suc (length (first_names a s)) \<and>
         length (data (fig_data (snd (written a s ! i)))) = Suc (length (first_names a s)) \<and>
         length (index (fig_data (snd (written a s ! i)))) = length (as_list a) \<and>
         list_all (\<lambda>col. length col = length (as_list a)) (data (fig_data (snd (written a s ! i))))"
proof -
  let ?df = "deref s (as_list a ! i)"
  from valid_input_table [OF assms]
  have wf: "wf_df ?df" and k: "0 < length (as_list a)" "length (as_list a) \<le> length (columns ?df)"
    and len: "length (first_names a s) = length (index ?df)"
    by (simp_all add: valid_table_def)
  have d: "fig_data (snd (written a s ! i)) =
             reshaped (length (as_list a)) (first_names a s) ?df"
    using assms by (simp add: written_nth fig_data_make_figure)
  let ?R = "reshaped (length (as_list a)) (first_names a s) ?df"
  have w: "wf_df ?R"
    using wf k len by (rule wf_reshaped)
  have c: "length (columns ?R) = Suc (length (first_names a s))"
    and x: "length (index ?R) = length (as_list a)"
    by (simp_all add: reshaped_def)
  from w c x show ?thesis
    unfolding d wf_df_def by simp
qed

theorem reshaped_shape_witness:
  "valid_input (ListOf [0, 1]) \<lparr>heap = [table_ab, table_cd], saved = []\<rparr> \<and>
   (0::nat) < length (as_list (ListOf [0, 1])) \<and>
   length (columns (fig_data (snd (written (ListOf [0, 1])
      \<lparr>heap = [table_ab, table_cd], saved = []\<rparr> ! 0)))) = 3 \<and>
   length (index (fig_data (snd (written (ListOf [0, 1])
      \<lparr>heap = [table_ab, table_cd], saved = []\<rparr> ! 0)))) = 2"
proof -
  let ?s = "\<lparr>heap = [table_ab, table_cd], saved = []\<rparr>"
  have v: "valid_input (ListOf [0, 1]) ?s" by code_simp
  have i: "(0::nat) < length (as_list (ListOf [0, 1]))" by (simp add: as_list_ListOf as_list_Table)
  have n: "first_names (ListOf [0, 1]) ?s = [Str ''a'', Str ''b'']" by code_simp
  from reshaped_shape [OF v i] v i show ?thesis
    unfolding n by (simp add: as_list_ListOf as_list_Table)
qed

text \<open>
  C2 as stated fails: for two tables with the two names \<open>a, b\<close>, the reshaped table
  has three columns, \<^verbatim>\<open>index\<close>, \<open>a\<close> and \<open>b\<close>.
\<close>

theorem reshaped_has_index_column:
  "getitem_to_list (Str ''name'') (deref \<lparr>heap = [table_ab, table_cd], saved = []\<rparr> 0) =
     Inr [Str ''a'', Str ''b''] \<and>
   columns (fig_data (snd (written (ListOf [0, 1])
      \<lparr>heap = [table_ab, table_cd], saved = []\<rparr> ! 0))) = [Str ''index'', Str ''a'', Str ''b''] \<and>
   length (columns (fig_data (snd (written (ListOf [0, 1])
      \<lparr>heap = [table_ab, table_cd], saved = []\<rparr> ! 0)))) \<noteq> length [Str ''a'', Str ''b'']"
  by code_simp

text \<open>
  C4, as amended. For the single table with the names \<open>a, b, c\<close> and the one measure
  column \<open>-1, 2, -3\<close>, the reshaped table has exactly one row and four columns: the added
  column \<^verbatim>\<open>index\<close>, which holds the label of the measure column, and the columns
  \<open>a\<close>, \<open>b\<close>, \<open>c\<close>, which hold \<open>1, 2, 3\<close>; and the file
  \<^verbatim>\<open>sensitivity_plot1.png\<close> is written. The objects after the call are the table
  passed, its copy with the absolute values, and the reshaped table.
\<close>

theorem scenario_single_table:
  "moment_sensitivity_plot (Table 0) \<lparr>heap = [table_abc], saved = []\<rparr> =
     (Inr ''Figures saved.'',
      \<lparr>heap = [table_abc,
               table_abc\<lparr>data := [[Str ''a'', Str ''b'', Str ''c''], [Num 1, Num 2, Num 3]]\<rparr>,
               \<lparr>columns = [Str ''index'', Str ''a'', Str ''b'', Str ''c''],
                index = [Num 0],
                data = [[Str ''sensitivity''], [Num 1], [Num 2], [Num 3]]\<rparr>],
       saved = [(''sensitivity_plot1.png'',
                 \<lparr>fig_data = \<lparr>columns = [Str ''index'', Str ''a'', Str ''b'', Str ''c''],
                              index = [Num 0],
                              data = [[Str ''sensitivity''], [Num 1], [Num 2], [Num 3]]\<rparr>,
                  x_vars = [Str ''a'', Str ''b'', Str ''c''],
                  y_vars = [Str ''index''],
                  ax_titles = [((Str ''index'', Str ''a''), Some ''intersection''),
                               ((Str ''index'', Str ''b''), Some ''beta1''),
                               ((Str ''index'', Str ''c''), Some ''beta2'')],
                  suptitle = ''Sensitivity 1''\<rparr>)]\<rparr>)"
  by code_simp

text \<open>
  C4 as stated fails in the number of columns: the reshaped table of the scenario has
  four columns, not the three columns \<open>a\<close>, \<open>b\<close>, \<open>c\<close>.
\<close>

theorem scenario_has_four_columns:
  "length (columns (fig_data (snd (written (Table 0) \<lparr>heap = [table_abc], saved = []\<rparr> ! 0)))) = 4 \<and>
   columns (fig_data (snd (written (Table 0) \<lparr>heap = [table_abc], saved = []\<rparr> ! 0))) \<noteq>
     [Str ''a'', Str ''b'', Str ''c'']"
  by code_simp

section \<open>The number of names and the titles\<close>

text \<open>
  C3, as amended. For every valid input whose \<^verbatim>\<open>name\<close> column holds at least
  one name, no name twice, and has a length other than 3, the function raises no error
  for the number of titles, nor any other: it returns its message and has written one
  file for each table.
\<close>

theorem no_error_for_other_lengths:
  assumes "valid_input a s" and "first_names a s \<noteq> []" and "distinct (first_names a s)"
    and "length (first_names a s) \<noteq> 3"
  shows "fst (moment_sensitivity_plot a s) = Inr ''Figures saved.'' \<and>
         map fst (written a s) = map plot_file [0..<length (as_list a)]"
  using msp_valid [OF assms(1)] by (simp add: comp_def)

theorem no_error_for_other_lengths_witness:
  "valid_input (Table 0) \<lparr>heap = [table_ab], saved = []\<rparr> \<and>
   first_names (Table 0) \<lparr>heap = [table_ab], saved = []\<rparr> = [Str ''a'', Str ''b''] \<and>
   distinct [Str ''a'', Str ''b''] \<and>
   length [Str ''a'', Str ''b''] \<noteq> 3 \<and>
   fst (moment_sensitivity_plot (Table 0) \<lparr>heap = [table_ab], saved = []\<rparr>) =
     Inr ''Figures saved.'' \<and>
   map fst (written (Table 0) \<lparr>heap = [table_ab], saved = []\<rparr>) = [plot_file 0]"
proof -
  let ?s = "\<lparr>heap = [table_ab], saved = []\<rparr>"
  have v: "valid_input (Table 0) ?s" by code_simp
  have n: "first_names (Table 0) ?s = [Str ''a'', Str ''b'']" by code_simp
  have e: "first_names (Table 0) ?s \<noteq> []" unfolding n by simp
  have d: "distinct (first_names (Table 0) ?s)" unfolding n by simp
  have p: "length (first_names (Table 0) ?s) \<noteq> 3" unfolding n by simp
  from no_error_for_other_lengths [OF v e d p] v n show ?thesis
    by (simp add: as_list_Table)
qed

text \<open>
  C3 as stated fails: for a table with the two names \<open>a, b\<close> the function raises
  nothing, returns its message and writes the file.
\<close>

theorem no_title_count_error:
  "getitem_to_list (Str ''name'') (deref \<lparr>heap = [table_ab], saved = []\<rparr> 0) =
     Inr [Str ''a'', Str ''b''] \<and>
   length [Str ''a'', Str ''b''] \<noteq> 3 \<and>
   fst (moment_sensitivity_plot (Table 0) \<lparr>heap = [table_ab], saved = []\<rparr>) =
     Inr ''Figures saved.'' \<and>
   map fst (written (Table 0) \<lparr>heap = [table_ab], saved = []\<rparr>) = [''sensitivity_plot1.png'']"
  by code_simp

section \<open>The tables of the caller\<close>

text \<open>
  C5. Every object that exists when the function is called, so every table that the
  caller passes, is the same after the call, whether the call returns or raises: the
  function changes only the copies it makes.
\<close>

theorem input_tables_unchanged:
  assumes "r < length (heap s)"
  shows "deref (snd (moment_sensitivity_plot a s)) r = deref s r"
proof -
  obtain new where "heap (snd (moment_sensitivity_plot a s)) = heap s @ new"
    using msp_heap by blast
  with assms show ?thesis by (simp add: deref_def nth_append)
qed

theorem input_tables_unchanged_witness:
  "(0::nat) < length (heap \<lparr>heap = [table_abc], saved = []\<rparr>) \<and>
   fst (moment_sensitivity_plot (Table 0) \<lparr>heap = [table_abc], saved = []\<rparr>) =
     Inr ''Figures saved.'' \<and>
   deref (snd (moment_sensitivity_plot (Table 0) \<lparr>heap = [table_abc], saved = []\<rparr>)) 0 =
     table_abc"
proof -
  let ?s = "\<lparr>heap = [table_abc], saved = []\<rparr>"
  have r: "(0::nat) < length (heap ?s)" by simp
  have f: "fst (moment_sensitivity_plot (Table 0) ?s) = Inr ''Figures saved.''" by code_simp
  have d: "deref ?s 0 = table_abc" by (simp add: deref_def)
  from input_tables_unchanged [OF r, of "Table 0"] r f show ?thesis
    unfolding d by simp
qed

text \<open>
  C6. For every valid input of \<open>N\<close> tables, with at least one name and no name twice,
  and every position in it, the copy made for the table at that position differs from the
  table only in its last \<open>N\<close> columns, which hold the absolute values: the labels, the
  columns before the last \<open>N\<close> and the \<^verbatim>\<open>name\<close> column are those of the
  table.
\<close>

theorem abs_changes_last_columns_only:
  assumes "valid_input a s" and "first_names a s \<noteq> []" and "distinct (first_names a s)"
    and "i < length (as_list a)"
  shows "columns (copy_made a s i) = columns (deref s (as_list a ! i)) \<and>
         index (copy_made a s i) = index (deref s (as_list a ! i)) \<and>
         length (data (copy_made a s i)) = length (data (deref s (as_list a ! i))) \<and>
         take (length (columns (deref s (as_list a ! i))) - length (as_list a))
           (data (copy_made a s i)) =
         take (length (columns (deref s (as_list a ! i))) - length (as_list a))
           (data (deref s (as_list a ! i))) \<and>
         drop (length (columns (deref s (as_list a ! i))) - length (as_list a))
           (data (copy_made a s i)) =
         map (map abs_val)
           (drop (length (columns (deref s (as_list a ! i))) - length (as_list a))
             (data (deref s (as_list a ! i)))) \<and>
         getitem_to_list (Str ''name'') (copy_made a s i) =
         getitem_to_list (Str ''name'') (deref s (as_list a ! i))"
proof -
  let ?t = "deref s (as_list a ! i)"
  let ?n = "length (as_list a)"
  let ?m = "length (columns ?t) - ?n"
  let ?c = "?t\<lparr>data := take ?m (data ?t) @ map (map abs_val) (drop ?m (data ?t))\<rparr>"
  have vt: "valid_table ?n (length (first_names a s)) ?t"
    using assms(1,4) by (rule valid_input_table)
  have c: "copy_made a s i = ?c"
    using copy_made_valid [OF assms(1,4)] abs_copy_valid [OF vt] by simp
  from vt have len: "length (data ?t) = length (columns ?t)"
    by (simp add: valid_table_def wf_df_def)
  have name: "getitem_to_list (Str ''name'') ?c = getitem_to_list (Str ''name'') ?t"
    using vt by (rule abs_keeps_name_column)
  show ?thesis
    unfolding c using len name by simp
qed

theorem abs_changes_last_columns_only_witness:
  "valid_input (Table 0) \<lparr>heap = [table_min], saved = []\<rparr> \<and>
   first_names (Table 0) \<lparr>heap = [table_min], saved = []\<rparr> = [Str ''a'', Str ''b''] \<and>
   distinct [Str ''a'', Str ''b''] \<and>
   (0::nat) < length (as_list (Table 0)) \<and>
   columns (copy_made (Table 0) \<lparr>heap = [table_min], saved = []\<rparr> 0) =
     [Str ''name'', Str ''m1''] \<and>
   take 1 (data (copy_made (Table 0) \<lparr>heap = [table_min], saved = []\<rparr> 0)) =
     [[Str ''a'', Str ''b'']] \<and>
   drop 1 (data (copy_made (Table 0) \<lparr>heap = [table_min], saved = []\<rparr> 0)) =
     [[Num (- 9223372036854775808), Num 5]]"
proof -
  let ?s = "\<lparr>heap = [table_min], saved = []\<rparr>"
  have v: "valid_input (Table 0) ?s" by code_simp
  have n: "first_names (Table 0) ?s = [Str ''a'', Str ''b'']" by code_simp
  have e: "first_names (Table 0) ?s \<noteq> []" unfolding n by simp
  have d: "distinct (first_names (Table 0) ?s)" unfolding n by simp
  have i: "(0::nat) < length (as_list (Table 0))" by (simp add: as_list_Table)
  have t: "deref ?s (as_list (Table 0) ! 0) = table_min"
    by (simp add: as_list_Table deref_def)
  have a: "map (map abs_val) (drop 1 (data table_min)) = [[Num (- 9223372036854775808), Num 5]]"
    by code_simp
  from abs_changes_last_columns_only [OF v e d i] v n i show ?thesis
    unfolding t using a by (simp add: as_list_Table table_min_def)
qed

section \<open>A missing name column\<close>

text \<open>
  C7, as amended. For every input whose first table has no \<^verbatim>\<open>name\<close> column,
  the function fails with a \<^verbatim>\<open>KeyError\<close>, before it makes an object or writes
  a file. Only the first table is asked for this column.
\<close>

theorem first_table_without_name:
  assumes "as_list a = first # rest" and "Str ''name'' \<notin> set (columns (deref s first))"
  shows "moment_sensitivity_plot a s = (Inl KeyError, s)"
proof -
  from assms(1) have "as_list a \<noteq> []" by simp
  then have "\<forall>rs. a \<noteq> TupleOf rs" by (rule not_tuple)
  then show ?thesis
    using assms by (simp add: msp_unfold getitem_missing)
qed

theorem first_table_without_name_witness:
  "as_list (ListOf [1, 0]) = 1 # [0] \<and>
   Str ''name'' \<notin> set (columns (deref \<lparr>heap = [table_ab, table_unnamed], saved = []\<rparr> 1)) \<and>
   moment_sensitivity_plot (ListOf [1, 0]) \<lparr>heap = [table_ab, table_unnamed], saved = []\<rparr> =
     (Inl KeyError, \<lparr>heap = [table_ab, table_unnamed], saved = []\<rparr>)"
proof -
  let ?s = "\<lparr>heap = [table_ab, table_unnamed], saved = []\<rparr>"
  have l: "as_list (ListOf [1, 0]) = 1 # [0]" by (simp add: as_list_ListOf as_list_Table)
  have k: "Str ''name'' \<notin> set (columns (deref ?s 1))"
    by (simp add: deref_def table_unnamed_def)
  from first_table_without_name [OF l k] l k show ?thesis by simp
qed

text \<open>
  C7 as stated fails: when it is the second table that has no \<^verbatim>\<open>name\<close> column,
  the function raises nothing and writes both files.
\<close>

theorem later_table_without_name:
  "Str ''name'' \<notin> set (columns (deref \<lparr>heap = [table_ab, table_unnamed], saved = []\<rparr> 1)) \<and>
   fst (moment_sensitivity_plot (ListOf [0, 1]) \<lparr>heap = [table_ab, table_unnamed], saved = []\<rparr>) =
     Inr ''Figures saved.'' \<and>
   map fst (written (ListOf [0, 1]) \<lparr>heap = [table_ab, table_unnamed], saved = []\<rparr>) =
     [''sensitivity_plot1.png'', ''sensitivity_plot2.png'']"
  by code_simp

section \<open>Determinism\<close>

text \<open>
  C9. Two calls on the same input, in whatever states, whose references are to objects
  and to the same tables in both states, return the same result and write files of the
  same names holding the same figures, so reshaped tables of the same shape and data.
  The call made right after a first call is the instance in the witness.
\<close>

theorem same_tables_same_figures:
  assumes "\<forall>r\<in>set (as_list a). r < length (heap s1) \<and> r < length (heap s2)"
    and "map (deref s1) (as_list a) = map (deref s2) (as_list a)"
  shows "fst (moment_sensitivity_plot a s1) = fst (moment_sensitivity_plot a s2) \<and>
         written a s1 = written a s2"
proof -
  from assms(1) have r1: "\<forall>r\<in>set (as_list a). r < length (heap s1)"
    and r2: "\<forall>r\<in>set (as_list a). r < length (heap s2)" by simp_all
  show ?thesis
  proof (cases "\<forall>rs. a \<noteq> TupleOf rs")
    case True
    then show ?thesis
      by (simp add: msp_render [OF r1] msp_render [OF r2] assms(2))
  next
    case False
    then show ?thesis by (auto simp: msp_tuple written_def)
  qed
qed

theorem same_tables_same_figures_witness:
  "as_list (Table 0) = [0] \<and>
   (0::nat) < length (heap \<lparr>heap = [table_abc], saved = []\<rparr>) \<and>
   (0::nat) < length (heap (snd (moment_sensitivity_plot (Table 0)
                                  \<lparr>heap = [table_abc], saved = []\<rparr>))) \<and>
   map (deref \<lparr>heap = [table_abc], saved = []\<rparr>) (as_list (Table 0)) =
   map (deref (snd (moment_sensitivity_plot (Table 0) \<lparr>heap = [table_abc], saved = []\<rparr>)))
     (as_list (Table 0)) \<and>
   fst (moment_sensitivity_plot (Table 0) \<lparr>heap = [table_abc], saved = []\<rparr>) =
   fst (moment_sensitivity_plot (Table 0)
         (snd (moment_sensitivity_plot (Table 0) \<lparr>heap = [table_abc], saved = []\<rparr>))) \<and>
   written (Table 0) \<lparr>heap = [table_abc], saved = []\<rparr> =
   written (Table 0) (snd (moment_sensitivity_plot (Table 0) \<lparr>heap = [table_abc], saved = []\<rparr>))"
proof -
  let ?s = "\<lparr>heap = [table_abc], saved = []\<rparr>"
  let ?s' = "snd (moment_sensitivity_plot (Table 0) ?s)"
  have l: "as_list (Table 0) = [0]" by (simp add: as_list_ListOf as_list_Table)
  have r1: "(0::nat) < length (heap ?s)" by simp
  have r2: "(0::nat) < length (heap ?s')" by code_simp
  from l r1 r2
  have r: "\<forall>r\<in>set (as_list (Table 0)). r < length (heap ?s) \<and> r < length (heap ?s')"
    by simp
  have m: "map (deref ?s) (as_list (Table 0)) = map (deref ?s') (as_list (Table 0))"
    by code_simp
  from same_tables_same_figures [OF r m] l r1 r2 m show ?thesis by blast
qed

end
